theory Spec2Isabelle
  imports Complex_Main "HOL-Library.Multiset"
begin

section \<open>Decorations.tsx: the decorative glyph field of the main menu\<close>

text \<open>
  A shallow embedding of \<^verbatim>\<open>src/features/MainMenu/Decorations.tsx\<close>. Module-level
  variables and React state are record fields passed explicitly; promises are
  identified by numbers and settle through explicit events; \<^verbatim>\<open>Math.random()\<close> is a
  parameter of every function that draws from it; timers live in a queue with a
  virtual clock counted in milliseconds.
\<close>

subsection \<open>The lazily loaded font list (lines 75-97)\<close>

text \<open>\<^verbatim>\<open>type DecorationFont = { name: string; font: { className: string } }\<close>\<close>

record font_object =
  className :: string

record DecorationFont =
  name :: string
  font :: font_object

text \<open>
  How the promise of \<^verbatim>\<open>import('./decorationFonts')\<close> settles: fulfilled with the
  module's \<^verbatim>\<open>decorationFonts\<close>, or rejected.
\<close>

datatype import_outcome = Fulfilled "DecorationFont list" | Rejected

text \<open>
  What one call of the async function \<^verbatim>\<open>loadDecorationFonts\<close> hands to its caller:
  a list returned directly (\<^verbatim>\<open>return []\<close>, \<^verbatim>\<open>return fontsCache\<close>), or the promise
  stored in \<^verbatim>\<open>fontsLoadingPromise\<close>, named by its number.
\<close>

datatype load_result = Fonts "DecorationFont list" | Pending_load nat

text \<open>
  The module state. \<open>production\<close> is \<^verbatim>\<open>process.env.NODE_ENV === 'production'\<close>;
  \<open>fontsCache\<close> and \<open>fontsLoadingPromise\<close> are the two module variables, \<open>None\<close>
  for \<^verbatim>\<open>null\<close>. \<open>import_calls\<close> counts the evaluations of the \<^verbatim>\<open>import()\<close> expression
  and numbers the promises, \<open>cache_writes\<close> counts the assignments to
  \<^verbatim>\<open>fontsCache\<close>, and \<open>settled\<close> records how each promise has settled so far.
\<close>

record font_module =
  production :: bool
  fontsCache :: "DecorationFont list option"
  fontsLoadingPromise :: "nat option"
  import_calls :: nat
  cache_writes :: nat
  settled :: "(nat \<times> import_outcome) list"

definition fresh_module :: "bool \<Rightarrow> font_module" where
  "fresh_module in_production =
     \<lparr>production = in_production, fontsCache = None, fontsLoadingPromise = None,
      import_calls = 0, cache_writes = 0, settled = []\<rparr>"

text \<open>
  \<^verbatim>\<open>loadDecorationFonts(forceLoad)\<close>, in the order of the source: the environment
  gate, the cache, the pending promise, and only then the import. A cached list is
  truthy in JavaScript even when it is empty, so the cache test is a test for
  \<^verbatim>\<open>null\<close>.
\<close>

definition loadDecorationFonts :: "bool \<Rightarrow> font_module \<Rightarrow> load_result \<times> font_module" where
  "loadDecorationFonts forceLoad m =
     (if \<not> production m \<and> \<not> forceLoad then (Fonts [], m)
      else case fontsCache m of
        Some fs \<Rightarrow> (Fonts fs, m)
      | None \<Rightarrow>
          (case fontsLoadingPromise m of
            Some p \<Rightarrow> (Pending_load p, m)
          | None \<Rightarrow>
              (Pending_load (import_calls m),
               m\<lparr>fontsLoadingPromise := Some (import_calls m), import_calls := Suc (import_calls m)\<rparr>)))"

text \<open>
  The import promise \<open>p\<close> settles. On fulfilment the \<^verbatim>\<open>.then\<close> callback of lines
  90-94 runs: it stores the list in \<^verbatim>\<open>fontsCache\<close> and clears
  \<^verbatim>\<open>fontsLoadingPromise\<close>. On rejection the callback is skipped and neither
  variable is touched. A promise settles once, and only if it was created.
\<close>

definition import_settles :: "nat \<Rightarrow> import_outcome \<Rightarrow> font_module \<Rightarrow> font_module" where
  "import_settles p outcome m =
     (if import_calls m \<le> p \<or> map_of (settled m) p \<noteq> None then m
      else case outcome of
        Fulfilled fs \<Rightarrow>
          m\<lparr>fontsCache := Some fs, fontsLoadingPromise := None,
            cache_writes := Suc (cache_writes m),
            settled := settled m @ [(p, outcome)]\<rparr>
      | Rejected \<Rightarrow> m\<lparr>settled := settled m @ [(p, outcome)]\<rparr>)"

text \<open>
  What \<^verbatim>\<open>await\<close> on a call's result yields at the moment \<open>m\<close>: \<open>None\<close> while the
  promise is pending, otherwise the list or the rejection.
\<close>

definition awaited :: "font_module \<Rightarrow> load_result \<Rightarrow> import_outcome option" where
  "awaited m r = (case r of Fonts fs \<Rightarrow> Some (Fulfilled fs) | Pending_load p \<Rightarrow> map_of (settled m) p)"

text \<open>A process history: calls of the loader interleaved with promise settlements.\<close>

datatype loader_event = Call bool | Settle nat import_outcome

fun loader_step :: "loader_event \<Rightarrow> font_module \<Rightarrow> font_module" where
  "loader_step (Call forceLoad) m = snd (loadDecorationFonts forceLoad m)"
| "loader_step (Settle p outcome) m = import_settles p outcome m"

fun loader_run :: "loader_event list \<Rightarrow> font_module \<Rightarrow> font_module" where
  "loader_run [] m = m"
| "loader_run (e # es) m = loader_run es (loader_step e m)"

subsection \<open>The colour pool (lines 57-73)\<close>

text \<open>
  The theme table \<^verbatim>\<open>themeSets\<close> is imported from another module and is a
  parameter here: an ordered list of groups, each with its themes; a theme has a
  main colour and an optional secondary colour (\<open>None\<close> when the field is absent).
\<close>

record theme =
  mainColor :: string
  secondaryColor :: "string option"

record theme_group =
  themes :: "theme list"

text \<open>Reading a JavaScript array: \<open>None\<close> is \<^verbatim>\<open>undefined\<close>, the value out of range.\<close>

definition js_index :: "'a list \<Rightarrow> nat \<Rightarrow> 'a option" where
  "js_index xs i = (if i < length xs then Some (xs ! i) else None)"

text \<open>
  A JavaScript \<^verbatim>\<open>Set\<close> keeps its members in insertion order, which is the order
  of \<^verbatim>\<open>Array.from\<close>: \<^verbatim>\<open>colors.add(x)\<close> appends \<open>x\<close> unless it is a member already.
\<close>

definition set_add :: "'a \<Rightarrow> 'a list \<Rightarrow> 'a list" where
  "set_add x xs = (if x \<in> set xs then xs else xs @ [x])"

text \<open>
  The body of the \<^verbatim>\<open>forEach\<close>: the main colour is added always, the secondary
  colour when it is truthy, that is, present and not the empty string.
\<close>

definition add_theme_colors :: "string list \<Rightarrow> theme \<Rightarrow> string list" where
  "add_theme_colors colors t =
     (let colors1 = set_add (mainColor t) colors
      in case secondaryColor t of
           None \<Rightarrow> colors1
         | Some s \<Rightarrow> if s \<noteq> [] then set_add s colors1 else colors1)"

text \<open>
  \<^verbatim>\<open>getAllMainColors\<close> reads \<^verbatim>\<open>themeSets[2]\<close> only. With fewer than three groups
  \<^verbatim>\<open>themeSets[2].themes\<close> throws a TypeError: the result \<open>None\<close>.
\<close>

definition getAllMainColors :: "theme_group list \<Rightarrow> string list option" where
  "getAllMainColors themeSets =
     (case js_index themeSets 2 of
        None \<Rightarrow> None
      | Some themeGroup \<Rightarrow> Some (foldl add_theme_colors [] (themes themeGroup)))"

subsection \<open>A glyph cell: \<^verbatim>\<open>KanjiCharacter\<close> (lines 99-210)\<close>

text \<open>
  \<^verbatim>\<open>Math.floor(Math.random() * n)\<close> for a draw \<open>r\<close> of \<^verbatim>\<open>Math.random()\<close>, which lies
  between 0 (included) and 1 (excluded), in exact arithmetic.
\<close>

definition random_index :: "real \<Rightarrow> nat \<Rightarrow> nat" where
  "random_index r n = nat \<lfloor>r * real n\<rfloor>"

definition animations :: "string list" where
  "animations = [''motion-safe:animate-pulse'']"

datatype anim_state = Idle | Exploding | Hidden | Fading_in

text \<open>The three nested \<^verbatim>\<open>setTimeout\<close> callbacks of \<^verbatim>\<open>handleClick\<close>, outermost first.\<close>

datatype timer_callback = To_hidden | To_fading_in | To_idle

record cell_styles =
  color :: "string option"
  fontClass :: string
  animation :: "string option"

text \<open>
  The props and the state of one cell. \<open>mounted\<close>, \<open>animState\<close>, \<open>styles\<close> and
  \<open>animationDelay\<close> are the \<^verbatim>\<open>useState\<close> values; \<open>isMounted\<close> is the local flag of
  the effect (lines 123 and 152). \<open>playClick_calls\<close> counts the audio cues and
  \<open>setAnimState_calls\<close> lists the arguments of \<^verbatim>\<open>setAnimState\<close> in call order.
  \<open>now\<close> is the clock in milliseconds and \<open>timers\<close> the pending \<^verbatim>\<open>setTimeout\<close>
  callbacks with the time each is due, in the order they were set.
\<close>

record cell =
  char :: string
  forceShow :: bool
  interactive :: bool
  mounted :: bool
  animState :: anim_state
  styles :: cell_styles
  animationDelay :: real
  isMounted :: bool
  playClick_calls :: nat
  setAnimState_calls :: "anim_state list"
  now :: nat
  timers :: "(nat \<times> timer_callback) list"

text \<open>
  A cell as its first render leaves it, at clock \<open>t0\<close>, the effect started: \<open>r0\<close> is
  the draw behind \<^verbatim>\<open>animationDelay\<close>.
\<close>

definition KanjiCharacter :: "string \<Rightarrow> bool \<Rightarrow> bool \<Rightarrow> real \<Rightarrow> nat \<Rightarrow> cell" where
  "KanjiCharacter ch forced clickable r0 t0 =
     \<lparr>char = ch, forceShow = forced, interactive = clickable, mounted = False,
      animState = Idle,
      styles = \<lparr>color = Some [], fontClass = [], animation = Some []\<rparr>,
      animationDelay = r0 * 1000, isMounted = True, playClick_calls = 0,
      setAnimState_calls = [], now = t0, timers = []\<rparr>"

text \<open>
  \<^verbatim>\<open>initializeStyles\<close> from the point where \<^verbatim>\<open>await loadDecorationFonts(forceShow)\<close>
  has settled. A rejection ends the function there. Otherwise the guard on
  \<open>isMounted\<close>, then the three draws \<open>r1\<close>, \<open>r2\<close>, \<open>r3\<close> (the second is taken only
  when the list is not empty), \<^verbatim>\<open>setStyles\<close> and \<^verbatim>\<open>setMounted(true)\<close>.
\<close>

definition initializeStyles ::
  "import_outcome \<Rightarrow> string list \<Rightarrow> real \<Rightarrow> real \<Rightarrow> real \<Rightarrow> cell \<Rightarrow> cell" where
  "initializeStyles awaited_fonts allMainColors r1 r2 r3 c =
     (case awaited_fonts of
        Rejected \<Rightarrow> c
      | Fulfilled fonts \<Rightarrow>
          if \<not> isMounted c then c
          else
            let randomColor = js_index allMainColors (random_index r1 (length allMainColors));
                randomFont =
                  (if length fonts > 0 then js_index fonts (random_index r2 (length fonts))
                   else None);
                randomAnimation = js_index animations (random_index r3 (length animations))
            in c\<lparr>styles :=
                   \<lparr>color = randomColor,
                    fontClass = (case randomFont of Some f \<Rightarrow> className (font f) | None \<Rightarrow> []),
                    animation = randomAnimation\<rparr>,
                 mounted := True\<rparr>)"

text \<open>
  The cleanup of the effect, which is all the component's own code does when it
  unmounts: no timer is cleared.
\<close>

definition unmount :: "cell \<Rightarrow> cell" where
  "unmount c = c\<lparr>isMounted := False\<rparr>"

definition playClick :: "cell \<Rightarrow> cell" where
  "playClick c = c\<lparr>playClick_calls := Suc (playClick_calls c)\<rparr>"

text \<open>
  \<^verbatim>\<open>setAnimState(s)\<close> is logged, and is the assignment it asks React for. While
  the cell is mounted that is the state React holds. React drops the update of a
  component that has been unmounted, so for a cell after \<open>unmount\<close> the field
  \<open>animState\<close> says what the calls asked for and no more: only
  \<open>setAnimState_calls\<close> and \<open>timers\<close> are read of such a cell.
\<close>

definition setAnimState :: "anim_state \<Rightarrow> cell \<Rightarrow> cell" where
  "setAnimState s c = c\<lparr>animState := s, setAnimState_calls := setAnimState_calls c @ [s]\<rparr>"

definition setTimeout :: "timer_callback \<Rightarrow> nat \<Rightarrow> cell \<Rightarrow> cell" where
  "setTimeout cb delay c = c\<lparr>timers := timers c @ [(now c + delay, cb)]\<rparr>"

definition handleClick :: "cell \<Rightarrow> cell" where
  "handleClick c =
     (if \<not> interactive c \<or> animState c \<noteq> Idle then c
      else setTimeout To_hidden 300 (setAnimState Exploding (playClick c)))"

fun run_callback :: "timer_callback \<Rightarrow> cell \<Rightarrow> cell" where
  "run_callback To_hidden c = setTimeout To_fading_in 1500 (setAnimState Hidden c)"
| "run_callback To_fading_in c = setTimeout To_idle 500 (setAnimState Fading_in c)"
| "run_callback To_idle c = setAnimState Idle c"

text \<open>The inline style that \<^verbatim>\<open>getAnimationStyle\<close> adds to the colour.\<close>

datatype anim_style = Animation_delay real | Animation string | Opacity nat | No_style

definition getAnimationStyle :: "cell \<Rightarrow> anim_style" where
  "getAnimationStyle c =
     (if \<not> interactive c then Animation_delay (animationDelay c)
      else case animState c of
        Exploding \<Rightarrow> Animation ''explode 300ms ease-out forwards''
      | Hidden \<Rightarrow> Opacity 0
      | Fading_in \<Rightarrow> Animation ''fadeIn 500ms ease-in forwards''
      | Idle \<Rightarrow> No_style)"

text \<open>
  \<^verbatim>\<open>clsx\<close> keeps its truthy arguments; \<open>None\<close> stands for \<^verbatim>\<open>false\<close> and
  \<^verbatim>\<open>undefined\<close>, and the empty string is falsy too. The class names stay a list.
\<close>

definition clsx :: "string option list \<Rightarrow> string list" where
  "clsx args = concat (map (\<lambda>a. case a of None \<Rightarrow> [] | Some s \<Rightarrow> if s = [] then [] else [s]) args)"

record span =
  span_className :: "string list"
  span_color :: "string option"
  span_style :: anim_style
  span_onClick :: bool
  span_text :: string

text \<open>What the component returns: \<^verbatim>\<open>null\<close> until \<open>mounted\<close>, then the span.\<close>

definition render :: "cell \<Rightarrow> span option" where
  "render c =
     (if \<not> mounted c then None
      else Some
        \<lparr>span_className =
           clsx [Some ''text-4xl'', Some (fontClass (styles c)),
                 if \<not> interactive c then animation (styles c) else None,
                 if interactive c then Some ''cursor-pointer'' else None],
         span_color = color (styles c),
         span_style = getAnimationStyle c,
         span_onClick = interactive c,
         span_text = char c\<rparr>)"

text \<open>
  A click of the user reaches \<^verbatim>\<open>handleClick\<close> through the rendered span only: there
  is no span before \<open>mounted\<close>, and no handler on a cell that is not interactive.
  Each click sees the state the previous event left (React re-renders between
  discrete events).
\<close>

definition click :: "cell \<Rightarrow> cell" where
  "click c =
     (case render c of
        None \<Rightarrow> c
      | Some sp \<Rightarrow> if span_onClick sp then handleClick c else c)"

text \<open>
  The timer queue of the event loop: the timer due first fires first, and among
  timers due at the same time the one set first.
\<close>

fun earliest :: "(nat \<times> 'a) list \<Rightarrow> (nat \<times> 'a) option" where
  "earliest [] = None"
| "earliest (t # ts) =
     (case earliest ts of
        None \<Rightarrow> Some t
      | Some u \<Rightarrow> if fst u < fst t then Some u else Some t)"

definition fire :: "nat \<times> timer_callback \<Rightarrow> cell \<Rightarrow> cell" where
  "fire t c = run_callback (snd t) (c\<lparr>now := max (now c) (fst t), timers := remove1 t (timers c)\<rparr>)"

fun callback_depth :: "timer_callback \<Rightarrow> nat" where
  "callback_depth To_hidden = 3"
| "callback_depth To_fading_in = 2"
| "callback_depth To_idle = 1"

text \<open>Let the clock reach \<open>T\<close>: every timer due by then fires, in order.\<close>

function run_until :: "nat \<Rightarrow> cell \<Rightarrow> cell" where
  "run_until T c =
     (case earliest (timers c) of
        None \<Rightarrow> c\<lparr>now := max (now c) T\<rparr>
      | Some t \<Rightarrow> if fst t \<le> T then run_until T (fire t c) else c\<lparr>now := max (now c) T\<rparr>)"
  by pat_completeness auto
termination
proof (relation "measure (\<lambda>(T, c). sum_list (map (callback_depth \<circ> snd) (timers c)))")
  show "wf (measure (\<lambda>(T, c). sum_list (map (callback_depth \<circ> snd) (timers c))))"
    by simp
next
  fix T :: nat and c :: cell and t :: "nat \<times> timer_callback"
  assume e: "earliest (timers c) = Some t"
  have mem: "earliest ts = Some u \<Longrightarrow> u \<in> set ts" for ts :: "(nat \<times> timer_callback) list" and u
    by (induction ts arbitrary: u) (auto split: option.splits if_splits)
  have "t \<in> set (timers c)"
    using e by (rule mem)
  then have split: "sum_list (map (callback_depth \<circ> snd) (timers c)) =
      callback_depth (snd t) + sum_list (map (callback_depth \<circ> snd) (remove1 t (timers c)))"
    using sum_list_map_remove1 [of t "timers c" "callback_depth \<circ> snd"] by simp
  have "sum_list (map (callback_depth \<circ> snd) (timers (fire t c))) <
      callback_depth (snd t) + sum_list (map (callback_depth \<circ> snd) (remove1 t (timers c)))"
    by (cases "snd t") (simp_all add: fire_def setTimeout_def setAnimState_def)
  with split show "((T, fire t c), (T, c)) \<in> measure (\<lambda>(T, c). sum_list (map (callback_depth \<circ> snd) (timers c)))"
    by simp
qed

declare run_until.simps [simp del]

definition elapse :: "nat \<Rightarrow> cell \<Rightarrow> cell" where
  "elapse d c = run_until (now c + d) c"

text \<open>Histories of one cell: clicks, and the next timer firing.\<close>

datatype cell_event = Click | Timer_fires

fun cell_step :: "cell_event \<Rightarrow> cell \<Rightarrow> cell" where
  "cell_step Click c = click c"
| "cell_step Timer_fires c = (case earliest (timers c) of None \<Rightarrow> c | Some t \<Rightarrow> fire t c)"

fun cell_run :: "cell_event list \<Rightarrow> cell \<Rightarrow> cell" where
  "cell_run [] c = c"
| "cell_run (e # es) c = cell_run es (cell_step e c)"

subsection \<open>The field: \<^verbatim>\<open>shuffle\<close> and \<^verbatim>\<open>Decorations\<close> (lines 45-47 and 212-274)\<close>

text \<open>
  \<^verbatim>\<open>arr.slice().sort(() => Math.random() - 0.5)\<close>. \<^verbatim>\<open>Array.prototype.sort\<close> is the
  JavaScript engine's and no code of this module: it is the parameter
  \<open>array_sort\<close>, which takes the comparator and the array and returns the array as
  the engine leaves it. The comparator ignores its two arguments, so it is given
  as the sequence of its answers: its \<open>k\<close>-th call returns the \<open>k\<close>-th draw \<open>rnd k\<close>
  of \<^verbatim>\<open>Math.random()\<close> minus one half. \<^verbatim>\<open>slice()\<close> copies the array so that the
  argument itself is not reordered, which a list is not in any case.
\<close>

definition shuffle :: "((nat \<Rightarrow> real) \<Rightarrow> 'a list \<Rightarrow> 'a list) \<Rightarrow> (nat \<Rightarrow> real) \<Rightarrow> 'a list \<Rightarrow> 'a list" where
  "shuffle array_sort rnd arr = array_sort (\<lambda>k. rnd k - 1 / 2) arr"

record RawKanjiEntry =
  kanjiChar :: string

definition kanjiSources :: "string list" where
  "kanjiSources = [''N5'', ''N4'', ''N3'']"

text \<open>
  A category fetch fails when \<^verbatim>\<open>fetch\<close> rejects or when \<^verbatim>\<open>response.json()\<close> does.
  The server is a parameter: what each URL answers.
\<close>

datatype fetch_error = Network_error | Parse_error

definition kanji_url :: "string \<Rightarrow> string" where
  "kanji_url level = ''/kanji/'' @ level @ ''.json''"

definition fetch_level :: "(string \<Rightarrow> fetch_error + RawKanjiEntry list) \<Rightarrow> string \<Rightarrow> fetch_error + string list" where
  "fetch_level server level =
     (case server (kanji_url level) of
        Inl e \<Rightarrow> Inl e
      | Inr data \<Rightarrow> Inr (map kanjiChar data))"

text \<open>
  \<^verbatim>\<open>Promise.all\<close>: the list of all values, or a rejection as soon as one promise
  rejects (here the first in list order; the reason is never read).
\<close>

fun promise_all :: "('e + 'a) list \<Rightarrow> 'e + 'a list" where
  "promise_all [] = Inr []"
| "promise_all (Inl e # ps) = Inl e"
| "promise_all (Inr v # ps) = (case promise_all ps of Inl e \<Rightarrow> Inl e | Inr vs \<Rightarrow> Inr (v # vs))"

text \<open>
  The props and state of the field. \<open>kanji_isMounted\<close> is the \<^verbatim>\<open>isMounted\<close> flag of
  the field's own effect; \<open>fetch_calls\<close> lists the URLs passed to \<^verbatim>\<open>fetch\<close>.
\<close>

record decorations =
  expandDecorations :: bool
  field_forceShow :: bool
  field_interactive :: bool
  kanjiList :: "string list"
  kanji_isMounted :: bool
  fetch_calls :: "string list"

definition Decorations :: "bool \<Rightarrow> bool \<Rightarrow> bool \<Rightarrow> decorations" where
  "Decorations expand forced clickable =
     \<lparr>expandDecorations = expand, field_forceShow = forced, field_interactive = clickable,
      kanjiList = [], kanji_isMounted = True, fetch_calls = []\<rparr>"

text \<open>
  \<^verbatim>\<open>loadKanji\<close> up to its \<^verbatim>\<open>await\<close>: the three mapped functions each run to their
  call of \<^verbatim>\<open>fetch\<close>.
\<close>

definition loadKanji_start :: "decorations \<Rightarrow> decorations" where
  "loadKanji_start fld = fld\<lparr>fetch_calls := fetch_calls fld @ map kanji_url kanjiSources\<rparr>"

text \<open>
  \<^verbatim>\<open>loadKanji\<close> after \<^verbatim>\<open>Promise.all\<close> has settled. The first component is how the
  promise of \<^verbatim>\<open>loadKanji\<close> itself settles, which \<^verbatim>\<open>void loadKanji()\<close> discards.
\<close>

definition loadKanji_resume ::
  "(string \<Rightarrow> fetch_error + RawKanjiEntry list) \<Rightarrow> ((nat \<Rightarrow> real) \<Rightarrow> string list \<Rightarrow> string list) \<Rightarrow>
   (nat \<Rightarrow> real) \<Rightarrow> decorations \<Rightarrow> (fetch_error + unit) \<times> decorations" where
  "loadKanji_resume server array_sort rnd fld =
     (case promise_all (map (fetch_level server) kanjiSources) of
        Inl e \<Rightarrow> (Inl e, fld)
      | Inr results \<Rightarrow>
          if \<not> kanji_isMounted fld then (Inr (), fld)
          else (Inr (), fld\<lparr>kanjiList := shuffle array_sort rnd (concat results)\<rparr>))"

text \<open>The whole of \<^verbatim>\<open>loadKanji\<close> when nothing happens to the field in between.\<close>

definition loadKanji ::
  "(string \<Rightarrow> fetch_error + RawKanjiEntry list) \<Rightarrow> ((nat \<Rightarrow> real) \<Rightarrow> string list \<Rightarrow> string list) \<Rightarrow>
   (nat \<Rightarrow> real) \<Rightarrow> decorations \<Rightarrow> (fetch_error + unit) \<times> decorations" where
  "loadKanji server array_sort rnd fld = loadKanji_resume server array_sort rnd (loadKanji_start fld)"


text \<open>
  The cells of the rendered grid: one \<^verbatim>\<open>KanjiCharacter\<close> per entry of \<^verbatim>\<open>kanjiList\<close>,
  in order, with its three props.
\<close>

definition render_cells :: "decorations \<Rightarrow> (string \<times> bool \<times> bool) list" where
  "render_cells fld = map (\<lambda>ch. (ch, field_forceShow fld, field_interactive fld)) (kanjiList fld)"

subsection \<open>The shapes of the loader's state\<close>

text \<open>
  Nothing started; one import made and its promise stored, pending or rejected;
  one import made and its list cached.
\<close>

definition not_started :: "font_module \<Rightarrow> bool" where
  "not_started m =
     (import_calls m = 0 \<and> fontsCache m = None \<and> fontsLoadingPromise m = None \<and>
      cache_writes m = 0 \<and> settled m = [])"

definition load_stored :: "font_module \<Rightarrow> bool" where
  "load_stored m =
     (import_calls m = 1 \<and> fontsCache m = None \<and> fontsLoadingPromise m = Some 0 \<and>
      cache_writes m = 0 \<and> (settled m = [] \<or> settled m = [(0, Rejected)]))"

definition load_cached :: "font_module \<Rightarrow> bool" where
  "load_cached m =
     (import_calls m = 1 \<and> fontsCache m \<noteq> None \<and> fontsLoadingPromise m = None \<and>
      cache_writes m = 1 \<and> (\<exists>fs. settled m = [(0, Fulfilled fs)]))"

definition single_load :: "font_module \<Rightarrow> bool" where
  "single_load m = (not_started m \<or> load_stored m \<or> load_cached m)"

subsection \<open>The shape of a cell's timer queue\<close>

text \<open>At rest no timer is pending; in each transient state exactly the next callback is.\<close>

definition one_timer :: "cell \<Rightarrow> bool" where
  "one_timer c =
     (case animState c of
        Idle \<Rightarrow> timers c = []
      | Exploding \<Rightarrow> (\<exists>t. timers c = [(t, To_hidden)])
      | Hidden \<Rightarrow> (\<exists>t. timers c = [(t, To_fading_in)])
      | Fading_in \<Rightarrow> (\<exists>t. timers c = [(t, To_idle)]))"

subsection \<open>Sample data\<close>

definition sample_font :: DecorationFont where
  "sample_font = \<lparr>name = ''Zen Maru Gothic'', font = \<lparr>className = ''zen_maru''\<rparr>\<rparr>"

text \<open>Outside production: a forced call starts the load; nothing has settled yet.\<close>

definition sample_loading :: font_module where
  "sample_loading = loader_run [Call True] (fresh_module False)"

text \<open>The same process once the import has delivered one font.\<close>

definition sample_loaded :: font_module where
  "sample_loaded = loader_run [Call True, Settle 0 (Fulfilled [sample_font])] (fresh_module False)"

text \<open>Four theme groups; the third repeats a main colour and has an empty secondary colour.\<close>

definition sample_themes :: "theme_group list" where
  "sample_themes =
     [\<lparr>themes = [\<lparr>mainColor = ''#111111'', secondaryColor = Some ''#222222''\<rparr>]\<rparr>,
      \<lparr>themes = [\<lparr>mainColor = ''#333333'', secondaryColor = None\<rparr>]\<rparr>,
      \<lparr>themes = [\<lparr>mainColor = ''#aa0000'', secondaryColor = Some ''#00bb00''\<rparr>,
                 \<lparr>mainColor = ''#0000cc'', secondaryColor = None\<rparr>,
                 \<lparr>mainColor = ''#aa0000'', secondaryColor = Some []\<rparr>]\<rparr>,
      \<lparr>themes = [\<lparr>mainColor = ''#444444'', secondaryColor = None\<rparr>]\<rparr>]"


definition failing_server :: "string \<Rightarrow> fetch_error + RawKanjiEntry list" where
  "failing_server url =
     (if url = ''/kanji/N5.json'' then Inr [\<lparr>kanjiChar = ''nichi''\<rparr>, \<lparr>kanjiChar = ''hon''\<rparr>]
      else if url = ''/kanji/N4.json'' then Inl Parse_error
      else Inr [])"

definition sample_draws :: "nat \<Rightarrow> real" where
  "sample_draws k = (if even k then 3 / 4 else 1 / 4)"

text \<open>
  For the sample runs, an engine whose sort reverses the array when the first
  answer of the comparator is negative and leaves it as it is otherwise.
\<close>

definition sample_sort :: "(nat \<Rightarrow> real) \<Rightarrow> string list \<Rightarrow> string list" where
  "sample_sort answers xs = (if answers 0 < 0 then rev xs else xs)"

text \<open>An interactive cell created at time 0 whose styles have been set: it is mounted and at rest.\<close>

definition sample_cell :: cell where
  "sample_cell =
     initializeStyles (Fulfilled []) [''#aa0000''] (1 / 2) (1 / 2) (1 / 2)
       (KanjiCharacter ''nichi'' False True (1 / 2) 0)"

section \<open>Properties of the font loader\<close>

text \<open>
  Every state a process can reach has one of the shapes of \<open>single_load\<close>.
\<close>

lemma loadDecorationFonts_gate:
  "\<not> production m \<Longrightarrow> loadDecorationFonts False m = (Fonts [], m)"
  by (simp add: loadDecorationFonts_def)

lemma loadDecorationFonts_handle:
  "fontsCache m = None \<Longrightarrow> fontsLoadingPromise m = Some p \<Longrightarrow> production m \<or> forceLoad \<Longrightarrow>
   loadDecorationFonts forceLoad m = (Pending_load p, m)"
  by (auto simp add: loadDecorationFonts_def)

lemma loader_run_append: "loader_run (es @ es') m = loader_run es' (loader_run es m)"
  by (induction es arbitrary: m) simp_all

lemma production_loader_step [simp]: "production (loader_step e m) = production m"
  by (cases e) (auto simp add: loadDecorationFonts_def import_settles_def split: option.splits import_outcome.splits)

lemma production_loader_run [simp]: "production (loader_run es m) = production m"
  by (induction es arbitrary: m) simp_all

lemma single_load_fresh: "single_load (fresh_module in_production)"
  by (simp add: single_load_def not_started_def fresh_module_def)

lemma single_load_call: "single_load m \<Longrightarrow> single_load (snd (loadDecorationFonts forceLoad m))"
  unfolding single_load_def not_started_def load_stored_def load_cached_def loadDecorationFonts_def
  by (auto split: option.splits)

lemma single_load_settles: "single_load m \<Longrightarrow> single_load (import_settles p outcome m)"
  unfolding single_load_def not_started_def load_stored_def load_cached_def import_settles_def
  by (cases outcome) auto

lemma single_load_step: "single_load m \<Longrightarrow> single_load (loader_step e m)"
  by (cases e) (simp_all add: single_load_call single_load_settles)

lemma single_load_run: "single_load m \<Longrightarrow> single_load (loader_run es m)"
  by (induction es arbitrary: m) (simp_all add: single_load_step)

lemma single_load_reachable: "single_load (loader_run es (fresh_module in_production))"
  by (rule single_load_run [OF single_load_fresh])

text \<open>Once the one import has been rejected, no event changes the module state.\<close>

lemma rejected_step_stable:
  assumes "import_calls m = 1" "fontsCache m = None" "fontsLoadingPromise m = Some 0"
    "settled m = [(0, Rejected)]"
  shows "loader_step e m = m"
proof (cases e)
  case (Call forceLoad)
  with assms show ?thesis by (simp add: loadDecorationFonts_def)
next
  case (Settle p outcome)
  with assms show ?thesis by (cases "p = 0") (simp_all add: import_settles_def)
qed

lemma rejected_run_stable:
  assumes "import_calls m = 1" "fontsCache m = None" "fontsLoadingPromise m = Some 0"
    "settled m = [(0, Rejected)]"
  shows "loader_run es m = m"
  by (induction es) (simp_all add: rejected_step_stable [OF assms])

lemma sample_loading_eq:
  "sample_loading = \<lparr>production = False, fontsCache = None, fontsLoadingPromise = Some 0,
     import_calls = 1, cache_writes = 0, settled = []\<rparr>"
  by (simp add: sample_loading_def fresh_module_def loadDecorationFonts_def)

lemma sample_loaded_eq:
  "sample_loaded = \<lparr>production = False, fontsCache = Some [sample_font], fontsLoadingPromise = None,
     import_calls = 1, cache_writes = 1, settled = [(0, Fulfilled [sample_font])]\<rparr>"
  by (simp add: sample_loaded_def fresh_module_def loadDecorationFonts_def import_settles_def)

text \<open>
  C3 (as amended). Once the cache is populated, a call returns at once, without an
  import and without touching the module state: the cached list when the process
  runs in production or the call is forced, and the empty list otherwise, because
  the environment gate of line 83 is tested before the cache.
\<close>

theorem cached_fonts_behind_gate:
  "fontsCache m = Some fs \<Longrightarrow>
   loadDecorationFonts forceLoad m = (Fonts (if production m \<or> forceLoad then fs else []), m)"
  by (simp add: loadDecorationFonts_def)

theorem cached_fonts_behind_gate_witness:
  "fontsCache sample_loaded = Some [sample_font] \<and>
   loadDecorationFonts True sample_loaded = (Fonts [sample_font], sample_loaded)"
  using cached_fonts_behind_gate [of sample_loaded "[sample_font]" True]
  by (simp add: sample_loaded_eq)

text \<open>
  C3 as stated fails: outside production, with the cache holding one font, an
  unforced call returns the empty list, not the cached one.
\<close>

theorem cached_fonts_regardless_counterexample:
  "production sample_loaded = False \<and> fontsCache sample_loaded = Some [sample_font] \<and>
   fst (loadDecorationFonts False sample_loaded) = Fonts [] \<and>
   fst (loadDecorationFonts False sample_loaded) \<noteq> Fonts [sample_font]"
  by (simp add: sample_loaded_eq loadDecorationFonts_def)

text \<open>
  C2 (as amended). Whatever calls and settlements a process goes through, the
  \<^verbatim>\<open>import()\<close> expression is evaluated at most once and \<^verbatim>\<open>fontsCache\<close> is assigned
  at most once. While the promise is stored, every caller that passes the
  environment gate (production, or \<open>forceLoad\<close>) receives that one promise and
  leaves the state as it is; an unforced caller outside production receives the
  empty list instead.
\<close>

theorem one_import_per_process:
  "import_calls (loader_run es (fresh_module in_production)) \<le> 1 \<and>
   cache_writes (loader_run es (fresh_module in_production)) \<le> 1 \<and>
   (fontsLoadingPromise (loader_run es (fresh_module in_production)) \<noteq> None \<longrightarrow>
      (in_production \<or> forceLoad \<longrightarrow>
         loadDecorationFonts forceLoad (loader_run es (fresh_module in_production)) =
           (Pending_load 0, loader_run es (fresh_module in_production))) \<and>
      (\<not> in_production \<longrightarrow>
         loadDecorationFonts False (loader_run es (fresh_module in_production)) =
           (Fonts [], loader_run es (fresh_module in_production))))"
proof -
  define m where "m = loader_run es (fresh_module in_production)"
  have shape: "single_load m"
    unfolding m_def by (rule single_load_reachable)
  have prod: "production m = in_production"
    by (simp add: m_def fresh_module_def)
  have counts: "import_calls m \<le> 1 \<and> cache_writes m \<le> 1"
    using shape by (auto simp add: single_load_def not_started_def load_stored_def load_cached_def)
  have handle: "fontsLoadingPromise m \<noteq> None \<Longrightarrow> fontsCache m = None \<and> fontsLoadingPromise m = Some 0"
    using shape by (auto simp add: single_load_def not_started_def load_stored_def load_cached_def)
  have pending: "fontsLoadingPromise m \<noteq> None \<Longrightarrow> in_production \<or> forceLoad \<Longrightarrow>
      loadDecorationFonts forceLoad m = (Pending_load 0, m)"
    using handle prod loadDecorationFonts_handle [of m 0 forceLoad] by blast
  have gate: "\<not> in_production \<Longrightarrow> loadDecorationFonts False m = (Fonts [], m)"
    using prod loadDecorationFonts_gate [of m] by simp
  show ?thesis
    using counts pending gate unfolding m_def by blast
qed

theorem one_import_per_process_witness:
  "import_calls sample_loading \<le> 1 \<and> cache_writes sample_loading \<le> 1 \<and>
   fontsLoadingPromise sample_loading = Some 0 \<and>
   loadDecorationFonts True sample_loading = (Pending_load 0, sample_loading)"
proof -
  have run: "loader_run [Call True] (fresh_module False) = sample_loading"
    by (simp add: sample_loading_def)
  show ?thesis
    using one_import_per_process [of "[Call True]" False True, unfolded run]
    by (simp add: sample_loading_eq)
qed

text \<open>
  C2 as stated fails: outside production, while the forced load is in flight, a
  forced caller receives the pending promise and an unforced caller the empty
  list, so not all callers that arrive then receive the same pending result.
\<close>

theorem same_pending_result_counterexample:
  "fontsLoadingPromise sample_loading = Some 0 \<and>
   awaited sample_loading (Pending_load 0) = None \<and>
   fst (loadDecorationFonts True sample_loading) = Pending_load 0 \<and>
   fst (loadDecorationFonts False sample_loading) = Fonts [] \<and>
   fst (loadDecorationFonts False sample_loading) \<noteq> fst (loadDecorationFonts True sample_loading)"
  by (simp add: sample_loading_eq loadDecorationFonts_def awaited_def)

text \<open>
  C10. Let the one import of a process be rejected while its promise is stored.
  From then on, through any further calls and settlement events, the promise stays
  in \<^verbatim>\<open>fontsLoadingPromise\<close>, the cache stays \<^verbatim>\<open>null\<close>, the number of imports stays
  one, and every call that passes the environment gate returns that rejected
  promise.
\<close>

theorem rejected_import_is_permanent:
  assumes "m0 = loader_run es0 (fresh_module in_production)"
    and "fontsLoadingPromise m0 = Some p"
    and "map_of (settled m0) p = None"
    and "m = loader_run es (import_settles p Rejected m0)"
  shows "fontsLoadingPromise m = Some p \<and> fontsCache m = None \<and>
         import_calls m = 1 \<and> cache_writes m = 0 \<and>
         awaited m (Pending_load p) = Some Rejected \<and>
         (in_production \<or> forceLoad \<longrightarrow> loadDecorationFonts forceLoad m = (Pending_load p, m))"
proof -
  have "single_load m0"
    unfolding assms(1) by (rule single_load_reachable)
  with assms(2,3) have m0: "p = 0" "import_calls m0 = 1" "fontsCache m0 = None"
      "cache_writes m0 = 0" "settled m0 = []"
    by (auto simp add: single_load_def not_started_def load_stored_def load_cached_def)
  define m1 where "m1 = import_settles p Rejected m0"
  have m1: "import_calls m1 = 1" "fontsCache m1 = None" "fontsLoadingPromise m1 = Some 0"
      "settled m1 = [(0, Rejected)]" "cache_writes m1 = 0"
    using m0 assms(2) by (simp_all add: m1_def import_settles_def)
  have same: "m = m1"
    using rejected_run_stable [OF m1(1-4)] assms(4) by (simp add: m1_def)
  have prod: "production m = in_production"
    by (simp add: assms fresh_module_def import_settles_def)
  have "in_production \<or> forceLoad \<Longrightarrow> loadDecorationFonts forceLoad m = (Pending_load p, m)"
    using loadDecorationFonts_handle [of m p forceLoad] same m1 m0(1) prod by simp
  then show ?thesis
    using same m1 m0(1) by (auto simp add: awaited_def)
qed

theorem rejected_import_is_permanent_witness:
  "fontsLoadingPromise sample_loading = Some 0 \<and>
   map_of (settled sample_loading) 0 = None \<and>
   fontsCache (loader_run [Call True, Settle 0 (Fulfilled [sample_font]), Call False]
      (import_settles 0 Rejected sample_loading)) = None \<and>
   import_calls (loader_run [Call True, Settle 0 (Fulfilled [sample_font]), Call False]
      (import_settles 0 Rejected sample_loading)) = 1 \<and>
   fst (loadDecorationFonts True (loader_run [Call True, Settle 0 (Fulfilled [sample_font]), Call False]
      (import_settles 0 Rejected sample_loading))) = Pending_load 0 \<and>
   awaited (loader_run [Call True, Settle 0 (Fulfilled [sample_font]), Call False]
      (import_settles 0 Rejected sample_loading)) (Pending_load 0) = Some Rejected"
proof -
  have h1: "sample_loading = loader_run [Call True] (fresh_module False)"
    by (simp add: sample_loading_def)
  have h2: "fontsLoadingPromise sample_loading = Some 0"
    by (simp add: sample_loading_eq)
  have h3: "map_of (settled sample_loading) 0 = None"
    by (simp add: sample_loading_eq)
  show ?thesis
    using h2 h3 rejected_import_is_permanent [OF h1 h2 h3 refl,
        of "[Call True, Settle 0 (Fulfilled [sample_font]), Call False]" True]
    by simp
qed

section \<open>Properties of a cell's styles\<close>

text \<open>
  C6. Let no load have started. Outside production an unforced call returns the
  empty list at once and leaves the module state alone, so that a new cell that
  awaited it gets the empty font class and renders (when it renders) with the
  fixed class names only. A forced call evaluates the import and stores its
  promise, in production or not.
\<close>

theorem unforced_load_skipped:
  assumes "fontsCache m = None" and "fontsLoadingPromise m = None"
  shows "(\<not> production m \<longrightarrow>
            loadDecorationFonts False m = (Fonts [], m) \<and>
            awaited m (Fonts []) = Some (Fulfilled []) \<and>
            fontClass (styles (initializeStyles (Fulfilled []) allMainColors r1 r2 r3
               (KanjiCharacter ch False clickable r0 t0))) = [] \<and>
            (\<exists>sp. render (initializeStyles (Fulfilled []) allMainColors r1 r2 r3
               (KanjiCharacter ch False clickable r0 t0)) = Some sp \<and>
               set (span_className sp) \<subseteq> {''text-4xl'', ''motion-safe:animate-pulse'', ''cursor-pointer''}) \<and>
            render (initializeStyles (Fulfilled []) allMainColors r1 r2 r3
               (unmount (KanjiCharacter ch False clickable r0 t0))) = None) \<and>
         loadDecorationFonts True m =
           (Pending_load (import_calls m),
            m\<lparr>fontsLoadingPromise := Some (import_calls m), import_calls := Suc (import_calls m)\<rparr>)"
proof -
  have skip: "\<not> production m \<Longrightarrow> loadDecorationFonts False m = (Fonts [], m)"
    by (rule loadDecorationFonts_gate)
  have aw: "awaited m (Fonts []) = Some (Fulfilled [])"
    by (simp add: awaited_def)
  have cls: "fontClass (styles (initializeStyles (Fulfilled []) allMainColors r1 r2 r3
               (KanjiCharacter ch False clickable r0 t0))) = []"
    by (simp add: initializeStyles_def KanjiCharacter_def Let_def)
  have rendered: "\<exists>sp. render (initializeStyles (Fulfilled []) allMainColors r1 r2 r3
               (KanjiCharacter ch False clickable r0 t0)) = Some sp \<and>
               set (span_className sp) \<subseteq> {''text-4xl'', ''motion-safe:animate-pulse'', ''cursor-pointer''}"
    by (simp add: initializeStyles_def KanjiCharacter_def Let_def render_def clsx_def js_index_def animations_def)
  have gone: "render (initializeStyles (Fulfilled []) allMainColors r1 r2 r3
               (unmount (KanjiCharacter ch False clickable r0 t0))) = None"
    by (simp add: initializeStyles_def KanjiCharacter_def unmount_def render_def)
  have forced: "loadDecorationFonts True m =
           (Pending_load (import_calls m),
            m\<lparr>fontsLoadingPromise := Some (import_calls m), import_calls := Suc (import_calls m)\<rparr>)"
    using assms by (simp add: loadDecorationFonts_def)
  show ?thesis
    using skip aw cls rendered gone forced by blast
qed

theorem unforced_load_skipped_witness:
  "fontsCache (fresh_module False) = None \<and> fontsLoadingPromise (fresh_module False) = None \<and>
   \<not> production (fresh_module False) \<and>
   loadDecorationFonts False (fresh_module False) = (Fonts [], fresh_module False) \<and>
   fontClass (styles (initializeStyles (Fulfilled []) [''#ff0000''] (1/2) (1/2) (1/2)
               (KanjiCharacter ''x'' False True (1/2) 0))) = [] \<and>
   fst (loadDecorationFonts True (fresh_module False)) = Pending_load 0 \<and>
   import_calls (snd (loadDecorationFonts True (fresh_module False))) = 1"
proof -
  have h1: "fontsCache (fresh_module False) = None"
    by (simp add: fresh_module_def)
  have h2: "fontsLoadingPromise (fresh_module False) = None"
    by (simp add: fresh_module_def)
  have h3: "\<not> production (fresh_module False)" "import_calls (fresh_module False) = 0"
    by (simp_all add: fresh_module_def)
  show ?thesis
    using h1 h2 h3 unforced_load_skipped [OF h1 h2, of "[''#ff0000'']" "1/2" "1/2" "1/2" "''x''" True "1/2" 0]
    by simp
qed

section \<open>Properties of the colour pool\<close>

lemma set_set_add: "set (set_add x xs) = insert x (set xs)"
  by (auto simp add: set_add_def)

lemma distinct_set_add: "distinct (set_add x xs) = distinct xs"
  by (auto simp add: set_add_def)

lemma set_add_theme_colors:
  "set (add_theme_colors colors t) =
     set colors \<union> insert (mainColor t) {s. secondaryColor t = Some s \<and> s \<noteq> []}"
  by (auto simp add: add_theme_colors_def Let_def set_set_add split: option.splits)

lemma distinct_add_theme_colors: "distinct (add_theme_colors colors t) = distinct colors"
  by (simp add: add_theme_colors_def Let_def distinct_set_add split: option.splits)

lemma set_foldl_add_theme_colors:
  "set (foldl add_theme_colors colors ts) =
     set colors \<union> (\<Union>t\<in>set ts. insert (mainColor t) {s. secondaryColor t = Some s \<and> s \<noteq> []})"
  by (induction ts arbitrary: colors) (auto simp add: set_add_theme_colors)

lemma distinct_foldl_add_theme_colors:
  "distinct (foldl add_theme_colors colors ts) = distinct colors"
  by (induction ts arbitrary: colors) (simp_all add: distinct_add_theme_colors)

text \<open>
  C9. When the theme table has a third group, the pool is a duplicate-free list
  whose members are exactly the main colours of that group's themes together with
  their secondary colours that are present and not empty. It is the same for every
  theme table with that third group: no other group contributes.
\<close>

theorem color_pool_of_one_group:
  assumes "js_index themeSets 2 = Some themeGroup"
  shows "\<exists>pool. getAllMainColors themeSets = Some pool \<and> distinct pool \<and>
           set pool = (\<Union>t\<in>set (themes themeGroup).
              insert (mainColor t) {s. secondaryColor t = Some s \<and> s \<noteq> []}) \<and>
           (\<forall>others. js_index others 2 = Some themeGroup \<longrightarrow> getAllMainColors others = Some pool)"
  using assms
  by (simp add: getAllMainColors_def set_foldl_add_theme_colors distinct_foldl_add_theme_colors)

theorem color_pool_of_one_group_witness:
  "js_index sample_themes 2 = Some (sample_themes ! 2) \<and>
   getAllMainColors sample_themes = Some [''#aa0000'', ''#00bb00'', ''#0000cc''] \<and>
   (\<exists>pool. getAllMainColors sample_themes = Some pool \<and> distinct pool \<and>
      set pool = (\<Union>t\<in>set (themes (sample_themes ! 2)).
              insert (mainColor t) {s. secondaryColor t = Some s \<and> s \<noteq> []}))"
proof -
  have h: "js_index sample_themes 2 = Some (sample_themes ! 2)"
    by (simp add: js_index_def sample_themes_def)
  have v: "getAllMainColors sample_themes = Some [''#aa0000'', ''#00bb00'', ''#0000cc'']"
    by (simp add: getAllMainColors_def js_index_def sample_themes_def add_theme_colors_def set_add_def)
  from color_pool_of_one_group [OF h] have
    "\<exists>pool. getAllMainColors sample_themes = Some pool \<and> distinct pool \<and>
      set pool = (\<Union>t\<in>set (themes (sample_themes ! 2)).
              insert (mainColor t) {s. secondaryColor t = Some s \<and> s \<noteq> []})"
    by blast
  with h v show ?thesis by blast
qed

section \<open>Properties of the field\<close>

lemma promise_all_rejects: "\<exists>e. Inl e \<in> set ps \<Longrightarrow> \<exists>e. promise_all ps = Inl e"
  by (induction ps rule: promise_all.induct) (auto split: sum.splits)







lemma failed_fetch_rejects:
  assumes "\<exists>level\<in>set kanjiSources. \<exists>e. server (kanji_url level) = Inl e"
  shows "\<exists>e'. promise_all (map (fetch_level server) kanjiSources) = Inl e'"
proof -
  from assms obtain level e where lv: "level \<in> set kanjiSources" "server (kanji_url level) = Inl e"
    by blast
  have "fetch_level server level = Inl e"
    using lv(2) by (simp add: fetch_level_def)
  moreover have "fetch_level server level \<in> set (map (fetch_level server) kanjiSources)"
    using lv(1) by simp
  ultimately have "Inl e \<in> set (map (fetch_level server) kanjiSources)"
    by simp
  then have "\<exists>e. Inl e \<in> set (map (fetch_level server) kanjiSources)"
    by (rule exI)
  then show ?thesis
    by (rule promise_all_rejects)
qed

text \<open>
  C8. When at least one category fetch fails, \<^verbatim>\<open>Promise.all\<close> rejects and
  \<^verbatim>\<open>loadKanji\<close> ends with that rejection, which nothing reads. The field keeps
  its state but for the three URLs fetched, each once: a new field keeps its empty
  list and renders no cell, whatever the other categories returned.
\<close>

theorem failed_fetch_leaves_field_empty:
  assumes "\<exists>level\<in>set kanjiSources. \<exists>e. server (kanji_url level) = Inl e"
  shows "(\<exists>e. fst (loadKanji server array_sort rnd fld) = Inl e) \<and>
         snd (loadKanji server array_sort rnd fld) = fld\<lparr>fetch_calls := fetch_calls fld @ map kanji_url kanjiSources\<rparr> \<and>
         kanjiList (snd (loadKanji server array_sort rnd (Decorations expand forced clickable))) = [] \<and>
         render_cells (snd (loadKanji server array_sort rnd (Decorations expand forced clickable))) = [] \<and>
         fetch_calls (snd (loadKanji server array_sort rnd (Decorations expand forced clickable))) =
           [''/kanji/N5.json'', ''/kanji/N4.json'', ''/kanji/N3.json'']"
proof -
  from failed_fetch_rejects [OF assms] obtain e'
    where rej: "promise_all (map (fetch_level server) kanjiSources) = Inl e'" ..
  have res: "loadKanji server array_sort rnd f = (Inl e', loadKanji_start f)" for f
    by (simp add: loadKanji_def loadKanji_resume_def rej)
  show ?thesis
    unfolding res
    by (simp add: loadKanji_start_def Decorations_def render_cells_def kanjiSources_def kanji_url_def)
qed

theorem failed_fetch_leaves_field_empty_witness:
  "fst (loadKanji failing_server sample_sort sample_draws (Decorations True False True)) = Inl Parse_error \<and>
   kanjiList (snd (loadKanji failing_server sample_sort sample_draws (Decorations True False True))) = [] \<and>
   render_cells (snd (loadKanji failing_server sample_sort sample_draws (Decorations True False True))) = []"
proof -
  have h: "\<exists>level\<in>set kanjiSources. \<exists>e. failing_server (kanji_url level) = Inl e"
    by (simp add: kanjiSources_def failing_server_def kanji_url_def)
  have v: "fst (loadKanji failing_server sample_sort sample_draws (Decorations True False True)) = Inl Parse_error"
    by (simp add: loadKanji_def loadKanji_resume_def kanjiSources_def fetch_level_def
        failing_server_def kanji_url_def)
  show ?thesis
    using v failed_fetch_leaves_field_empty [OF h, where array_sort = sample_sort and rnd = sample_draws and expand = True and forced = False
        and clickable = True and fld = "Decorations True False True"]
    by blast
qed

section \<open>Properties of a cell's state machine\<close>

lemma cell_run_append: "cell_run (es @ es') c = cell_run es' (cell_run es c)"
  by (induction es arbitrary: c) simp_all

lemma click_eq_handleClick: "mounted c \<Longrightarrow> interactive c \<Longrightarrow> click c = handleClick c"
  by (simp add: click_def render_def)

lemma click_ignored: "\<not> interactive c \<or> animState c \<noteq> Idle \<Longrightarrow> click c = c"
  by (auto simp add: click_def render_def handleClick_def)

lemma clicks_ignored: "\<not> interactive c \<or> animState c \<noteq> Idle \<Longrightarrow> cell_run (replicate n Click) c = c"
  by (induction n) (simp_all add: click_ignored)

lemma handleClick_idle:
  "interactive c \<Longrightarrow> animState c = Idle \<Longrightarrow>
   handleClick c = c\<lparr>animState := Exploding, playClick_calls := Suc (playClick_calls c),
      setAnimState_calls := setAnimState_calls c @ [Exploding],
      timers := timers c @ [(now c + 300, To_hidden)]\<rparr>"
  by (simp add: handleClick_def setTimeout_def setAnimState_def playClick_def)

lemma fire_single:
  "timers c = [(t, cb)] \<Longrightarrow> cell_step Timer_fires c = run_callback cb (c\<lparr>now := max (now c) t, timers := []\<rparr>)"
  by (simp add: fire_def)

lemma run_until_idle: "timers c = [] \<Longrightarrow> run_until T c = c\<lparr>now := max (now c) T\<rparr>"
  by (subst run_until.simps) simp

lemma run_until_early: "timers c = [(t, cb)] \<Longrightarrow> T < t \<Longrightarrow> run_until T c = c\<lparr>now := max (now c) T\<rparr>"
  by (subst run_until.simps) simp

lemma run_until_due:
  "timers c = [(t, cb)] \<Longrightarrow> t \<le> T \<Longrightarrow>
   run_until T c = run_until T (run_callback cb (c\<lparr>now := max (now c) t, timers := []\<rparr>))"
  by (subst run_until.simps) (simp add: fire_def)


lemma elapse_after_click:
  assumes "interactive c" and "animState c = Idle" and "timers c = []"
  shows "elapse d (handleClick c) =
     (if d < 300 then
        c\<lparr>animState := Exploding, playClick_calls := Suc (playClick_calls c),
          setAnimState_calls := setAnimState_calls c @ [Exploding],
          now := now c + d, timers := [(now c + 300, To_hidden)]\<rparr>
      else if d < 1800 then
        c\<lparr>animState := Hidden, playClick_calls := Suc (playClick_calls c),
          setAnimState_calls := setAnimState_calls c @ [Exploding, Hidden],
          now := now c + d, timers := [(now c + 1800, To_fading_in)]\<rparr>
      else if d < 2300 then
        c\<lparr>animState := Fading_in, playClick_calls := Suc (playClick_calls c),
          setAnimState_calls := setAnimState_calls c @ [Exploding, Hidden, Fading_in],
          now := now c + d, timers := [(now c + 2300, To_idle)]\<rparr>
      else
        c\<lparr>animState := Idle, playClick_calls := Suc (playClick_calls c),
          setAnimState_calls := setAnimState_calls c @ [Exploding, Hidden, Fading_in, Idle],
          now := now c + d, timers := []\<rparr>)"
proof -
  define c1 where "c1 = c\<lparr>animState := Exploding, playClick_calls := Suc (playClick_calls c),
          setAnimState_calls := setAnimState_calls c @ [Exploding],
          timers := [(now c + 300, To_hidden)]\<rparr>"
  define c2 where "c2 = c\<lparr>animState := Hidden, playClick_calls := Suc (playClick_calls c),
          setAnimState_calls := setAnimState_calls c @ [Exploding, Hidden],
          now := now c + 300, timers := [(now c + 1800, To_fading_in)]\<rparr>"
  define c3 where "c3 = c\<lparr>animState := Fading_in, playClick_calls := Suc (playClick_calls c),
          setAnimState_calls := setAnimState_calls c @ [Exploding, Hidden, Fading_in],
          now := now c + 1800, timers := [(now c + 2300, To_idle)]\<rparr>"
  define c4 where "c4 = c\<lparr>animState := Idle, playClick_calls := Suc (playClick_calls c),
          setAnimState_calls := setAnimState_calls c @ [Exploding, Hidden, Fading_in, Idle],
          now := now c + 2300, timers := []\<rparr>"
  have start: "handleClick c = c1"
    using assms by (simp add: handleClick_idle c1_def)
  have t1: "timers c1 = [(now c + 300, To_hidden)]" and n1: "now c1 = now c"
    by (simp_all add: c1_def)
  have t2: "timers c2 = [(now c + 1800, To_fading_in)]" and n2: "now c2 = now c + 300"
    by (simp_all add: c2_def)
  have t3: "timers c3 = [(now c + 2300, To_idle)]" and n3: "now c3 = now c + 1800"
    by (simp_all add: c3_def)
  have t4: "timers c4 = []" and n4: "now c4 = now c + 2300"
    by (simp_all add: c4_def)
  have s12: "run_callback To_hidden (c1\<lparr>now := max (now c1) (now c + 300), timers := []\<rparr>) = c2"
    by (simp add: c1_def c2_def setTimeout_def setAnimState_def)
  have s23: "run_callback To_fading_in (c2\<lparr>now := max (now c2) (now c + 1800), timers := []\<rparr>) = c3"
    by (simp add: c2_def c3_def setTimeout_def setAnimState_def)
  have s34: "run_callback To_idle (c3\<lparr>now := max (now c3) (now c + 2300), timers := []\<rparr>) = c4"
    by (simp add: c3_def c4_def setTimeout_def setAnimState_def)
  let ?T = "now c + d"
  have r1: "d < 300 \<Longrightarrow> run_until ?T c1 = c1\<lparr>now := now c + d\<rparr>"
    using run_until_early [OF t1, of ?T] by (simp add: n1)
  have r12: "300 \<le> d \<Longrightarrow> run_until ?T c1 = run_until ?T c2"
    using run_until_due [OF t1, of ?T, unfolded s12] by simp
  have r2: "d < 1800 \<Longrightarrow> 300 \<le> d \<Longrightarrow> run_until ?T c2 = c2\<lparr>now := now c + d\<rparr>"
    using run_until_early [OF t2, of ?T] by (simp add: n2 max_def)
  have r23: "1800 \<le> d \<Longrightarrow> run_until ?T c2 = run_until ?T c3"
    using run_until_due [OF t2, of ?T, unfolded s23] by simp
  have r3: "d < 2300 \<Longrightarrow> 1800 \<le> d \<Longrightarrow> run_until ?T c3 = c3\<lparr>now := now c + d\<rparr>"
    using run_until_early [OF t3, of ?T] by (simp add: n3 max_def)
  have r34: "2300 \<le> d \<Longrightarrow> run_until ?T c3 = run_until ?T c4"
    using run_until_due [OF t3, of ?T, unfolded s34] by simp
  have r4: "2300 \<le> d \<Longrightarrow> run_until ?T c4 = c4\<lparr>now := now c + d\<rparr>"
    using run_until_idle [OF t4, of ?T] by (simp add: n4 max_def)
  have "elapse d c1 = run_until ?T c1"
    by (simp add: elapse_def n1)
  also have "\<dots> = (if d < 300 then c1\<lparr>now := now c + d\<rparr>
      else if d < 1800 then c2\<lparr>now := now c + d\<rparr>
      else if d < 2300 then c3\<lparr>now := now c + d\<rparr>
      else c4\<lparr>now := now c + d\<rparr>)"
    using r1 r12 r2 r23 r3 r34 r4 by (simp add: not_less)
  finally show ?thesis
    unfolding start by (simp add: c1_def c2_def c3_def c4_def)
qed


lemma run_click_cycle:
  assumes "interactive c" and "mounted c" and "animState c = Idle" and "timers c = []"
  shows "cell_run (Click # replicate n1 Click) c =
           c\<lparr>animState := Exploding, playClick_calls := Suc (playClick_calls c),
             setAnimState_calls := setAnimState_calls c @ [Exploding],
             timers := [(now c + 300, To_hidden)]\<rparr>"
    and "cell_run (Click # replicate n1 Click @ Timer_fires # replicate n2 Click) c =
           c\<lparr>animState := Hidden, playClick_calls := Suc (playClick_calls c),
             setAnimState_calls := setAnimState_calls c @ [Exploding, Hidden],
             now := now c + 300, timers := [(now c + 1800, To_fading_in)]\<rparr>"
    and "cell_run (Click # replicate n1 Click @ Timer_fires # replicate n2 Click @
            Timer_fires # replicate n3 Click) c =
           c\<lparr>animState := Fading_in, playClick_calls := Suc (playClick_calls c),
             setAnimState_calls := setAnimState_calls c @ [Exploding, Hidden, Fading_in],
             now := now c + 1800, timers := [(now c + 2300, To_idle)]\<rparr>"
    and "cell_run (Click # replicate n1 Click @ Timer_fires # replicate n2 Click @
            Timer_fires # replicate n3 Click @ [Timer_fires]) c =
           c\<lparr>animState := Idle, playClick_calls := Suc (playClick_calls c),
             setAnimState_calls := setAnimState_calls c @ [Exploding, Hidden, Fading_in, Idle],
             now := now c + 2300, timers := []\<rparr>"
proof -
  define c1 where "c1 = c\<lparr>animState := Exploding, playClick_calls := Suc (playClick_calls c),
          setAnimState_calls := setAnimState_calls c @ [Exploding],
          timers := [(now c + 300, To_hidden)]\<rparr>"
  define c2 where "c2 = c\<lparr>animState := Hidden, playClick_calls := Suc (playClick_calls c),
          setAnimState_calls := setAnimState_calls c @ [Exploding, Hidden],
          now := now c + 300, timers := [(now c + 1800, To_fading_in)]\<rparr>"
  define c3 where "c3 = c\<lparr>animState := Fading_in, playClick_calls := Suc (playClick_calls c),
          setAnimState_calls := setAnimState_calls c @ [Exploding, Hidden, Fading_in],
          now := now c + 1800, timers := [(now c + 2300, To_idle)]\<rparr>"
  define c4 where "c4 = c\<lparr>animState := Idle, playClick_calls := Suc (playClick_calls c),
          setAnimState_calls := setAnimState_calls c @ [Exploding, Hidden, Fading_in, Idle],
          now := now c + 2300, timers := []\<rparr>"
  have first: "click c = c1"
    using assms by (simp add: click_eq_handleClick handleClick_idle c1_def)
  have f01: "cell_step Click c = c1"
    using first by simp
  have busy: "animState c1 \<noteq> Idle" "animState c2 \<noteq> Idle" "animState c3 \<noteq> Idle"
    by (simp_all add: c1_def c2_def c3_def)
  have f12: "cell_step Timer_fires c1 = c2"
    by (simp add: c1_def c2_def fire_def setTimeout_def setAnimState_def)
  have f23: "cell_step Timer_fires c2 = c3"
    by (simp add: c2_def c3_def fire_def setTimeout_def setAnimState_def)
  have f34: "cell_step Timer_fires c3 = c4"
    by (simp add: c3_def c4_def fire_def setTimeout_def setAnimState_def)
  have r1: "cell_run (Click # replicate n1 Click) c = c1"
    using clicks_ignored [of c1 n1] busy(1) by (simp add: first)
  have r2: "cell_run (Click # replicate n1 Click @ Timer_fires # replicate n2 Click) c = c2"
    using clicks_ignored [of c1 n1] clicks_ignored [of c2 n2] busy
    by (simp add: f01 cell_run_append f12 del: cell_step.simps)
  have r3: "cell_run (Click # replicate n1 Click @ Timer_fires # replicate n2 Click @
            Timer_fires # replicate n3 Click) c = c3"
    using clicks_ignored [of c1 n1] clicks_ignored [of c2 n2] clicks_ignored [of c3 n3] busy
    by (simp add: f01 cell_run_append f12 f23 del: cell_step.simps)
  have r4: "cell_run (Click # replicate n1 Click @ Timer_fires # replicate n2 Click @
            Timer_fires # replicate n3 Click @ [Timer_fires]) c = c4"
    using clicks_ignored [of c1 n1] clicks_ignored [of c2 n2] clicks_ignored [of c3 n3] busy
    by (simp add: f01 cell_run_append f12 f23 f34 del: cell_step.simps)
  show "cell_run (Click # replicate n1 Click) c =
           c\<lparr>animState := Exploding, playClick_calls := Suc (playClick_calls c),
             setAnimState_calls := setAnimState_calls c @ [Exploding],
             timers := [(now c + 300, To_hidden)]\<rparr>"
    using r1 by (simp add: c1_def)
  show "cell_run (Click # replicate n1 Click @ Timer_fires # replicate n2 Click) c =
           c\<lparr>animState := Hidden, playClick_calls := Suc (playClick_calls c),
             setAnimState_calls := setAnimState_calls c @ [Exploding, Hidden],
             now := now c + 300, timers := [(now c + 1800, To_fading_in)]\<rparr>"
    using r2 by (simp add: c2_def)
  show "cell_run (Click # replicate n1 Click @ Timer_fires # replicate n2 Click @
            Timer_fires # replicate n3 Click) c =
           c\<lparr>animState := Fading_in, playClick_calls := Suc (playClick_calls c),
             setAnimState_calls := setAnimState_calls c @ [Exploding, Hidden, Fading_in],
             now := now c + 1800, timers := [(now c + 2300, To_idle)]\<rparr>"
    using r3 by (simp add: c3_def)
  show "cell_run (Click # replicate n1 Click @ Timer_fires # replicate n2 Click @
            Timer_fires # replicate n3 Click @ [Timer_fires]) c =
           c\<lparr>animState := Idle, playClick_calls := Suc (playClick_calls c),
             setAnimState_calls := setAnimState_calls c @ [Exploding, Hidden, Fading_in, Idle],
             now := now c + 2300, timers := []\<rparr>"
    using r4 by (simp add: c4_def)
qed


lemma sample_cell_facts:
  "interactive sample_cell" "mounted sample_cell" "animState sample_cell = Idle"
  "timers sample_cell = []" "now sample_cell = 0" "playClick_calls sample_cell = 0"
  "setAnimState_calls sample_cell = []" "isMounted sample_cell"
  by (simp_all add: sample_cell_def initializeStyles_def KanjiCharacter_def Let_def)

lemma unmount_handleClick: "unmount (handleClick c) = handleClick (unmount c)"
  by (simp add: unmount_def handleClick_def setTimeout_def setAnimState_def playClick_def)

text \<open>
  Every state that a cell reaches by clicks and timer firings keeps the shape
  \<open>one_timer\<close>; in particular, whenever its state is \<open>Idle\<close> no timer is
  pending.
\<close>

lemma one_timer_click: "one_timer c \<Longrightarrow> one_timer (click c)"
  by (auto simp add: one_timer_def click_def render_def handleClick_def setTimeout_def
      setAnimState_def playClick_def split: anim_state.splits)

lemma one_timer_fires: "one_timer c \<Longrightarrow> one_timer (cell_step Timer_fires c)"
  by (cases "animState c")
    (auto simp add: one_timer_def fire_def setTimeout_def setAnimState_def)

lemma one_timer_step: "one_timer c \<Longrightarrow> one_timer (cell_step e c)"
  using one_timer_click one_timer_fires by (cases e) simp_all

lemma one_timer_run: "one_timer c \<Longrightarrow> one_timer (cell_run es c)"
  by (induction es arbitrary: c) (simp_all add: one_timer_step)

lemma one_timer_new:
  "one_timer (initializeStyles fonts pool r1 r2 r3 (KanjiCharacter ch forced clickable r0 t0))"
  by (simp add: one_timer_def initializeStyles_def KanjiCharacter_def Let_def
      split: import_outcome.splits)

lemma idle_reached_at_rest:
  assumes "c = cell_run es (initializeStyles fonts pool r1 r2 r3 (KanjiCharacter ch forced clickable r0 t0))"
    and "animState c = Idle"
  shows "timers c = []"
proof -
  have "one_timer c"
    unfolding assms(1) by (rule one_timer_run [OF one_timer_new])
  with assms(2) show ?thesis
    by (simp add: one_timer_def)
qed

text \<open>
  C1. A click on a mounted interactive cell at rest (state \<open>Idle\<close>, no timer
  pending, as in every \<open>Idle\<close> state a cell reaches) plays the audio cue once and sets the state to \<open>Exploding\<close>. As the
  three timers fire, with any number of further clicks before each of them, the
  state is \<open>Hidden\<close>, then \<open>Fading_in\<close>, then \<open>Idle\<close>; over the whole cycle
  \<^verbatim>\<open>setAnimState\<close> is called with exactly these four values in this order and
  the cue has played once. A click on a cell that is not interactive, or whose
  state is not \<open>Idle\<close>, changes nothing at all, the count of cues included.
\<close>

theorem click_cycle:
  "(interactive c \<and> mounted c \<and> animState c = Idle \<and> timers c = [] \<longrightarrow>
      playClick_calls (click c) = Suc (playClick_calls c) \<and>
      animState (click c) = Exploding \<and>
      animState (cell_run (Click # replicate n1 Click) c) = Exploding \<and>
      animState (cell_run (Click # replicate n1 Click @ Timer_fires # replicate n2 Click) c) = Hidden \<and>
      animState (cell_run (Click # replicate n1 Click @ Timer_fires # replicate n2 Click @
            Timer_fires # replicate n3 Click) c) = Fading_in \<and>
      animState (cell_run (Click # replicate n1 Click @ Timer_fires # replicate n2 Click @
            Timer_fires # replicate n3 Click @ [Timer_fires]) c) = Idle \<and>
      setAnimState_calls (cell_run (Click # replicate n1 Click @ Timer_fires # replicate n2 Click @
            Timer_fires # replicate n3 Click @ [Timer_fires]) c) =
        setAnimState_calls c @ [Exploding, Hidden, Fading_in, Idle] \<and>
      playClick_calls (cell_run (Click # replicate n1 Click @ Timer_fires # replicate n2 Click @
            Timer_fires # replicate n3 Click @ [Timer_fires]) c) = Suc (playClick_calls c)) \<and>
   (\<not> interactive c \<or> animState c \<noteq> Idle \<longrightarrow> click c = c)"
proof (intro conjI impI)
  assume "\<not> interactive c \<or> animState c \<noteq> Idle"
  then show "click c = c"
    by (rule click_ignored)
next
  assume idle: "interactive c \<and> mounted c \<and> animState c = Idle \<and> timers c = []"
  then have a: "interactive c" "mounted c" "animState c = Idle" "timers c = []"
    by simp_all
  have one: "click c = cell_run (Click # replicate 0 Click) c"
    by simp
  show "playClick_calls (click c) = Suc (playClick_calls c)"
    unfolding one run_click_cycle(1) [OF a] by simp
  show "animState (click c) = Exploding"
    unfolding one run_click_cycle(1) [OF a] by simp
  show "animState (cell_run (Click # replicate n1 Click) c) = Exploding"
    unfolding run_click_cycle(1) [OF a] by simp
  show "animState (cell_run (Click # replicate n1 Click @ Timer_fires # replicate n2 Click) c) = Hidden"
    unfolding run_click_cycle(2) [OF a] by simp
  show "animState (cell_run (Click # replicate n1 Click @ Timer_fires # replicate n2 Click @
            Timer_fires # replicate n3 Click) c) = Fading_in"
    unfolding run_click_cycle(3) [OF a] by simp
  show "animState (cell_run (Click # replicate n1 Click @ Timer_fires # replicate n2 Click @
            Timer_fires # replicate n3 Click @ [Timer_fires]) c) = Idle"
    unfolding run_click_cycle(4) [OF a] by simp
  show "setAnimState_calls (cell_run (Click # replicate n1 Click @ Timer_fires # replicate n2 Click @
            Timer_fires # replicate n3 Click @ [Timer_fires]) c) =
        setAnimState_calls c @ [Exploding, Hidden, Fading_in, Idle]"
    unfolding run_click_cycle(4) [OF a] by simp
  show "playClick_calls (cell_run (Click # replicate n1 Click @ Timer_fires # replicate n2 Click @
            Timer_fires # replicate n3 Click @ [Timer_fires]) c) = Suc (playClick_calls c)"
    unfolding run_click_cycle(4) [OF a] by simp
qed

theorem click_cycle_witness:
  "interactive sample_cell \<and> mounted sample_cell \<and> animState sample_cell = Idle \<and>
   timers sample_cell = [] \<and>
   playClick_calls (click sample_cell) = 1 \<and>
   animState (click sample_cell) = Exploding \<and>
   setAnimState_calls (cell_run [Click, Click, Click, Timer_fires, Click, Timer_fires,
      Click, Click, Timer_fires] sample_cell) = [Exploding, Hidden, Fading_in, Idle] \<and>
   playClick_calls (cell_run [Click, Click, Click, Timer_fires, Click, Timer_fires,
      Click, Click, Timer_fires] sample_cell) = 1 \<and>
   animState (click sample_cell) \<noteq> Idle \<and>
   click (click sample_cell) = click sample_cell"
proof -
  have l: "[Click, Click, Click, Timer_fires, Click, Timer_fires, Click, Click, Timer_fires] =
      Click # replicate 2 Click @ Timer_fires # replicate 1 Click @
            Timer_fires # replicate 2 Click @ [Timer_fires]"
    by (simp add: numeral_2_eq_2)
  have busy: "animState (click sample_cell) \<noteq> Idle"
    using click_cycle [of sample_cell 0 0 0] by (simp add: sample_cell_facts)
  show ?thesis
    unfolding l
    using busy click_cycle [of sample_cell 2 1 2] click_cycle [of "click sample_cell" 0 0 0]
    by (simp add: sample_cell_facts del: replicate.simps replicate_Suc)
qed

text \<open>
  C5. After a click at rest the first timer is due 300 ms later. Seen \<open>d\<close> ms
  after the click, the cell is \<open>Exploding\<close> before 300, \<open>Hidden\<close> with opacity 0
  from 300 until 300 + 1500, \<open>Fading_in\<close> from there until 300 + 1500 + 500, and
  \<open>Idle\<close> with no inline animation style from then on, when the next click is
  accepted again.
\<close>

theorem transition_delays:
  assumes "interactive c" and "mounted c" and "animState c = Idle" and "timers c = []"
  shows "timers (click c) = [(now c + 300, To_hidden)] \<and>
         (d < 300 \<longrightarrow> animState (elapse d (click c)) = Exploding) \<and>
         (300 \<le> d \<and> d < 300 + 1500 \<longrightarrow>
            animState (elapse d (click c)) = Hidden \<and>
            getAnimationStyle (elapse d (click c)) = Opacity 0 \<and>
            timers (elapse d (click c)) = [(now c + 300 + 1500, To_fading_in)]) \<and>
         (300 + 1500 \<le> d \<and> d < 300 + 1500 + 500 \<longrightarrow>
            animState (elapse d (click c)) = Fading_in \<and>
            getAnimationStyle (elapse d (click c)) = Animation ''fadeIn 500ms ease-in forwards'' \<and>
            timers (elapse d (click c)) = [(now c + 300 + 1500 + 500, To_idle)]) \<and>
         (300 + 1500 + 500 \<le> d \<longrightarrow>
            animState (elapse d (click c)) = Idle \<and>
            getAnimationStyle (elapse d (click c)) = No_style \<and>
            timers (elapse d (click c)) = [] \<and>
            animState (click (elapse d (click c))) = Exploding \<and>
            playClick_calls (click (elapse d (click c))) = Suc (Suc (playClick_calls c)))"
proof -
  have hc: "click c = handleClick c"
    using assms by (simp add: click_eq_handleClick)
  note st = elapse_after_click [OF assms(1,3,4), of d]
  have t: "timers (click c) = [(now c + 300, To_hidden)]"
    using assms by (simp add: hc handleClick_idle)
  have a: "d < 300 \<Longrightarrow> animState (elapse d (click c)) = Exploding"
    unfolding hc st by simp
  have b: "300 \<le> d \<Longrightarrow> d < 1800 \<Longrightarrow>
            animState (elapse d (click c)) = Hidden \<and>
            getAnimationStyle (elapse d (click c)) = Opacity 0 \<and>
            timers (elapse d (click c)) = [(now c + 1800, To_fading_in)]"
    unfolding hc st using assms(1) by (simp add: getAnimationStyle_def)
  have c: "1800 \<le> d \<Longrightarrow> d < 2300 \<Longrightarrow>
            animState (elapse d (click c)) = Fading_in \<and>
            getAnimationStyle (elapse d (click c)) = Animation ''fadeIn 500ms ease-in forwards'' \<and>
            timers (elapse d (click c)) = [(now c + 2300, To_idle)]"
    unfolding hc st using assms(1) by (simp add: getAnimationStyle_def)
  have e: "2300 \<le> d \<Longrightarrow>
            animState (elapse d (click c)) = Idle \<and>
            getAnimationStyle (elapse d (click c)) = No_style \<and>
            timers (elapse d (click c)) = [] \<and>
            animState (click (elapse d (click c))) = Exploding \<and>
            playClick_calls (click (elapse d (click c))) = Suc (Suc (playClick_calls c))"
    unfolding hc st using assms(1,2)
    by (simp add: getAnimationStyle_def click_eq_handleClick handleClick_idle)
  show ?thesis
    using t a b c e by simp
qed

theorem transition_delays_witness:
  "interactive sample_cell \<and> mounted sample_cell \<and> animState sample_cell = Idle \<and>
   timers sample_cell = [] \<and>
   timers (click sample_cell) = [(300, To_hidden)] \<and>
   animState (elapse 299 (click sample_cell)) = Exploding \<and>
   animState (elapse 300 (click sample_cell)) = Hidden \<and>
   getAnimationStyle (elapse 300 (click sample_cell)) = Opacity 0 \<and>
   animState (elapse 1799 (click sample_cell)) = Hidden \<and>
   animState (elapse 1800 (click sample_cell)) = Fading_in \<and>
   animState (elapse 2299 (click sample_cell)) = Fading_in \<and>
   animState (elapse 2300 (click sample_cell)) = Idle \<and>
   animState (click (elapse 2300 (click sample_cell))) = Exploding"
  using transition_delays [OF sample_cell_facts(1-4), of 299]
    transition_delays [OF sample_cell_facts(1-4), of 300]
    transition_delays [OF sample_cell_facts(1-4), of 1799]
    transition_delays [OF sample_cell_facts(1-4), of 1800]
    transition_delays [OF sample_cell_facts(1-4), of 2299]
    transition_delays [OF sample_cell_facts(1-4), of 2300]
  by (simp add: sample_cell_facts)

lemma elapse_unmounted_click:
  "elapse d (unmount (click sample_cell)) =
     elapse d (handleClick (unmount sample_cell))"
  by (simp add: click_eq_handleClick sample_cell_facts unmount_handleClick)

text \<open>
  C4, evaluated where the code departs from the claim; only the calls the
  callbacks make and the timers they set are looked at. No callback reads the
  flag: with the flag cleared, each makes the same call of \<^verbatim>\<open>setAnimState\<close> and
  sets the same timer as with the flag set. So for a cell clicked at time 0 and
  unmounted at once, the timer set by the click stays pending, and by 300, 1800
  and 2300 ms the callbacks have called \<^verbatim>\<open>setAnimState\<close> with \<open>Hidden\<close>,
  \<open>Fading_in\<close> and \<open>Idle\<close> and the first two have set the next timer, the flag
  \<open>isMounted\<close> being false all the while. The guard on \<open>isMounted\<close> exists in
  \<^verbatim>\<open>initializeStyles\<close> only.
\<close>

theorem unmounted_cell_still_transitions:
  "setAnimState_calls (run_callback cb (unmount c)) = setAnimState_calls (run_callback cb c) \<and>
   timers (run_callback cb (unmount c)) = timers (run_callback cb c) \<and>
   isMounted (unmount (click sample_cell)) = False \<and>
   setAnimState_calls (unmount (click sample_cell)) = [Exploding] \<and>
   timers (unmount (click sample_cell)) = [(300, To_hidden)] \<and>
   setAnimState_calls (elapse 300 (unmount (click sample_cell))) = [Exploding, Hidden] \<and>
   timers (elapse 300 (unmount (click sample_cell))) = [(1800, To_fading_in)] \<and>
   setAnimState_calls (elapse 1800 (unmount (click sample_cell))) =
     [Exploding, Hidden, Fading_in] \<and>
   timers (elapse 1800 (unmount (click sample_cell))) = [(2300, To_idle)] \<and>
   setAnimState_calls (elapse 2300 (unmount (click sample_cell))) =
     [Exploding, Hidden, Fading_in, Idle] \<and>
   timers (elapse 2300 (unmount (click sample_cell))) = [] \<and>
   isMounted (elapse 2300 (unmount (click sample_cell))) = False"
proof -
  have u: "interactive (unmount sample_cell)" "animState (unmount sample_cell) = Idle"
      "timers (unmount sample_cell) = []"
    by (simp_all add: unmount_def sample_cell_facts)
  have calls: "setAnimState_calls (run_callback cb (unmount c)) = setAnimState_calls (run_callback cb c)"
    by (cases cb) (simp_all add: unmount_def setTimeout_def setAnimState_def)
  have queue: "timers (run_callback cb (unmount c)) = timers (run_callback cb c)"
    by (cases cb) (simp_all add: unmount_def setTimeout_def setAnimState_def)
  have start: "isMounted (unmount (click sample_cell)) = False \<and>
      setAnimState_calls (unmount (click sample_cell)) = [Exploding] \<and>
      timers (unmount (click sample_cell)) = [(300, To_hidden)]"
    by (simp add: click_eq_handleClick sample_cell_facts handleClick_idle unmount_def)
  have at300: "setAnimState_calls (elapse 300 (unmount (click sample_cell))) = [Exploding, Hidden] \<and>
      timers (elapse 300 (unmount (click sample_cell))) = [(1800, To_fading_in)]"
    unfolding elapse_unmounted_click elapse_after_click [OF u]
    by (simp add: unmount_def sample_cell_facts)
  have at1800: "setAnimState_calls (elapse 1800 (unmount (click sample_cell))) =
        [Exploding, Hidden, Fading_in] \<and>
      timers (elapse 1800 (unmount (click sample_cell))) = [(2300, To_idle)]"
    unfolding elapse_unmounted_click elapse_after_click [OF u]
    by (simp add: unmount_def sample_cell_facts)
  have at2300: "setAnimState_calls (elapse 2300 (unmount (click sample_cell))) =
        [Exploding, Hidden, Fading_in, Idle] \<and>
      timers (elapse 2300 (unmount (click sample_cell))) = [] \<and>
      isMounted (elapse 2300 (unmount (click sample_cell))) = False"
    unfolding elapse_unmounted_click elapse_after_click [OF u]
    by (simp add: unmount_def sample_cell_facts)
  show ?thesis
    using calls queue start at300 at1800 at2300 by blast
qed

end
